theory Spec2Isabelle
  imports Main "HOL-Library.Sublist"
begin

section \<open>Strings and regular expressions of the platform table\<close>

text \<open>
  Strings are lists of 8-bit characters. The regular expressions of \<open>PLATFORMS\<close> are
  written with ASCII characters only and carry the \<open>i\<close> flag. Under that flag (without
  \<open>u\<close>) a character is canonicalised by upper-casing it, and a character of code 128 or
  more is never canonicalised to one below 128: against these patterns the comparison is
  ASCII case folding, which \<open>canonicalize\<close> is.
\<close>

definition canonicalize :: "char \<Rightarrow> char" where
  "canonicalize c =
     (case map_of (zip ''abcdefghijklmnopqrstuvwxyz'' ''ABCDEFGHIJKLMNOPQRSTUVWXYZ'') c of
        Some u \<Rightarrow> u
      | None \<Rightarrow> c)"

text \<open>
  The fragment of the regular expression syntax that the source uses: a character, the
  assertion \<open>^\<close>, sequence, alternative \<open>|\<close> and the optional \<open>?\<close>.
\<close>

datatype regex =
    Chr char
  | Bol
  | Eps
  | Seq regex regex
  | Alt regex regex
  | Opt regex

record RegExp =
  source :: regex
  ignoreCase :: bool

text \<open>
  \<open>rx_match ic r (k, s)\<close>: the matcher at index \<open>k\<close> of the input, \<open>s\<close> being the input
  from \<open>k\<close> on. It returns every state in which a match of \<open>r\<close> can end, in the order in
  which backtracking tries them.
\<close>

fun rx_match :: "bool \<Rightarrow> regex \<Rightarrow> nat \<times> string \<Rightarrow> (nat \<times> string) list" where
  "rx_match ic (Chr c) (k, s) =
     (case s of
        [] \<Rightarrow> []
      | x # xs \<Rightarrow>
          if (if ic then canonicalize x = canonicalize c else x = c)
          then [(Suc k, xs)] else [])"
| "rx_match ic Bol (k, s) = (if k = 0 then [(k, s)] else [])"
| "rx_match ic Eps (k, s) = [(k, s)]"
| "rx_match ic (Seq a b) (k, s) = concat (map (rx_match ic b) (rx_match ic a (k, s)))"
| "rx_match ic (Alt a b) (k, s) = rx_match ic a (k, s) @ rx_match ic b (k, s)"
| "rx_match ic (Opt a) (k, s) = rx_match ic a (k, s) @ [(k, s)]"

text \<open>The search of \<open>RegExp.prototype.test\<close>: the first index at which a match starts.\<close>

fun rx_search :: "bool \<Rightarrow> regex \<Rightarrow> nat \<Rightarrow> string \<Rightarrow> bool" where
  "rx_search ic r k [] = (rx_match ic r (k, []) \<noteq> [])"
| "rx_search ic r k (x # xs) = (rx_match ic r (k, x # xs) \<noteq> [] \<or> rx_search ic r (Suc k) xs)"

text \<open>
  None of the regular expressions has the \<open>g\<close> or \<open>y\<close> flag, so \<open>test\<close> keeps no state
  between calls and starts at index 0.
\<close>

definition test :: "RegExp \<Rightarrow> string \<Rightarrow> bool" where
  "test re s = rx_search (ignoreCase re) (source re) 0 s"

text \<open>A run of literal characters, such as \<open>youtube\.com\<close>.\<close>

definition lit :: "string \<Rightarrow> regex" where
  "lit p = foldr (\<lambda>c r. Seq (Chr c) r) p Eps"

section \<open>Platform detection\<close>

record platform_sig =
  name :: string
  pattern :: RegExp

definition PLATFORMS :: "platform_sig list" where
  "PLATFORMS =
     [ \<lparr>name = ''YouTube'',
        pattern = \<lparr>source = Alt (lit ''youtube.com'') (lit ''youtu.be''), ignoreCase = True\<rparr>\<rparr>,
       \<lparr>name = ''Instagram'',
        pattern = \<lparr>source = lit ''instagram.com'', ignoreCase = True\<rparr>\<rparr>,
       \<lparr>name = ''TikTok'',
        pattern = \<lparr>source = lit ''tiktok.com'', ignoreCase = True\<rparr>\<rparr>,
       \<lparr>name = ''Facebook'',
        pattern = \<lparr>source = Alt (lit ''facebook.com'') (lit ''fb.watch''), ignoreCase = True\<rparr>\<rparr>,
       \<lparr>name = ''Generic'',
        pattern = \<lparr>source = Seq Bol (Seq (lit ''http'') (Seq (Opt (Chr CHR ''s'')) (lit ''://''))),
                   ignoreCase = True\<rparr>\<rparr> ]"

definition detectPlatform :: "string \<Rightarrow> string option" where
  "detectPlatform u = map_option name (find (\<lambda>p. test (pattern p) u) PLATFORMS)"

text \<open>The accessor \<open>platform\<close> of the component: the empty string is falsy.\<close>

definition platform :: "string \<Rightarrow> string option" where
  "platform u = (if u \<noteq> [] then detectPlatform u else None)"

section \<open>Values received from the network\<close>

text \<open>
  What \<open>JSON.parse\<close> can return. A number is kept as the text that \<open>ToString\<close> gives for
  it (\<open>0\<close> for both zeros): the program does nothing else with a number than convert it
  to a string or test it for truth. An object keeps its members in the order of the text.
\<close>

datatype json =
    JNull
  | JBool bool
  | JNumber string
  | JString string
  | JArray "json list"
  | JObject "(string \<times> json) list"

text \<open>
  A thrown value, as far as the \<open>catch\<close> clause of \<open>handleDownload\<close> looks at it: an
  instance of \<open>Error\<close> with its \<open>message\<close>, or anything else.
\<close>

datatype js_thrown = ErrorInstance string | NonError

text \<open>
  What the program takes from its host: the constructor \<open>URL\<close> (\<open>None\<close> when it throws,
  otherwise the scheme of the parsed URL), the build-time variable \<open>VITE_API_BASE\<close>, the
  messages of the two \<open>TypeError\<close>s that the engine itself can raise in the handler
  (reading a property of \<open>null\<close>, and converting to a string an object that has no
  callable \<open>toString\<close>), and what the framework does when an array or an object is given
  to it as the child of an element: \<open>insert_child\<close> is the message of the error it throws
  then, if it throws one.
\<close>

record host =
  URL_scheme :: "string \<Rightarrow> string option"
  VITE_API_BASE :: "string option"
  null_read_message :: string
  to_primitive_message :: string
  insert_child :: "json \<Rightarrow> string option"

text \<open>The getter \<open>protocol\<close> of a parsed URL: the scheme followed by a colon.\<close>

definition protocol :: "string \<Rightarrow> string" where
  "protocol scheme = scheme @ '':''"

text \<open>\<open>API_BASE\<close>: one trailing slash removed, \<open>http://localhost:8000\<close> when unset.\<close>

definition API_BASE :: "host \<Rightarrow> string" where
  "API_BASE h =
     (case VITE_API_BASE h of
        None \<Rightarrow> ''http://localhost:8000''
      | Some v \<Rightarrow> if v \<noteq> [] \<and> last v = CHR ''/'' then butlast v else v)"

text \<open>
  \<open>js_get v k\<close> is \<open>v.k\<close> for a value \<open>v\<close> other than \<open>null\<close> and a key \<open>k\<close> that no
  prototype defines (\<open>detail\<close>, \<open>filename\<close>, \<open>download_url\<close>); \<open>None\<close> is \<open>undefined\<close>.
  Of a repeated member of an object the last one counts.
\<close>

definition js_get :: "json \<Rightarrow> string \<Rightarrow> json option" where
  "js_get v k = (case v of JObject kvs \<Rightarrow> map_of (rev kvs) k | _ \<Rightarrow> None)"

definition js_truthy :: "json \<Rightarrow> bool" where
  "js_truthy v =
     (case v of
        JNull \<Rightarrow> False
      | JBool b \<Rightarrow> b
      | JNumber n \<Rightarrow> n \<noteq> ''0''
      | JString s \<Rightarrow> s \<noteq> []
      | JArray _ \<Rightarrow> True
      | JObject _ \<Rightarrow> True)"

definition intercalate :: "string \<Rightarrow> string list \<Rightarrow> string" where
  "intercalate sep ps = (case ps of [] \<Rightarrow> [] | q # qs \<Rightarrow> q @ concat (map (\<lambda>r. sep @ r) qs))"

text \<open>
  \<open>ToString\<close>. An array is joined with commas, \<open>null\<close> elements giving the empty string. An
  object gives \<open>[object Object]\<close>, unless it has a member \<open>toString\<close> of its own (which,
  coming from JSON, is not callable): then the conversion throws a \<open>TypeError\<close>.
\<close>

fun js_ToString :: "host \<Rightarrow> json \<Rightarrow> js_thrown + string"
  and js_join :: "host \<Rightarrow> json list \<Rightarrow> js_thrown + string list" where
  "js_ToString h JNull = Inr ''null''"
| "js_ToString h (JBool b) = Inr (if b then ''true'' else ''false'')"
| "js_ToString h (JNumber n) = Inr n"
| "js_ToString h (JString s) = Inr s"
| "js_ToString h (JArray xs) =
     (case js_join h xs of Inl e \<Rightarrow> Inl e | Inr ps \<Rightarrow> Inr (intercalate '','' ps))"
| "js_ToString h (JObject kvs) =
     (if ''toString'' \<in> fst ` set kvs then Inl (ErrorInstance (to_primitive_message h))
      else Inr ''[object Object]'')"
| "js_join h [] = Inr []"
| "js_join h (x # xs) =
     (case (if x = JNull then Inr [] else js_ToString h x) of
        Inl e \<Rightarrow> Inl e
      | Inr p \<Rightarrow> (case js_join h xs of Inl e \<Rightarrow> Inl e | Inr ps \<Rightarrow> Inr (p # ps)))"

text \<open>The decimal text of a status code.\<close>

fun digits :: "nat \<Rightarrow> string" where
  "digits n =
     (if n < 10 then [''0123456789'' ! n]
      else digits (n div 10) @ [''0123456789'' ! (n mod 10)])"

text \<open>
  \<open>String.prototype.trim\<close>: white space and line terminators, as far as they are 8-bit
  characters (tab, line feed, vertical tab, form feed, carriage return, space, no-break
  space).
\<close>

definition is_space :: "char \<Rightarrow> bool" where
  "is_space c \<longleftrightarrow> c \<in> set [CHR 0x09, CHR 0x0A, CHR 0x0B, CHR 0x0C, CHR 0x0D, CHR '' '', CHR 0xA0]"

definition trim :: "string \<Rightarrow> string" where
  "trim s = rev (dropWhile is_space (rev (dropWhile is_space s)))"

section \<open>The component's state\<close>

datatype AppStatus = Idle | Loading | Success | Error

text \<open>
  The four signals of the form. \<open>result\<close> has the type \<open>DownloadResult | null\<close> in the
  source; it is assigned what \<open>res.json()\<close> resolves to, unchecked, so at run time it is
  any JSON value, \<open>JNull\<close> being \<open>null\<close>. The fifth signal, \<open>isDark\<close>, is read and written
  by the theme toggle only and is left out.
\<close>

record state =
  url :: string
  status :: AppStatus
  result :: json
  errorMsg :: string

definition initial :: state where
  "initial = \<lparr>url = [], status = Idle, result = JNull, errorMsg = []\<rparr>"

definition isLoading :: "state \<Rightarrow> bool" where
  "isLoading s \<longleftrightarrow> status s = Loading"

text \<open>The interface \<open>DownloadResult\<close>: an object with four members that are strings.\<close>

definition is_string :: "json option \<Rightarrow> bool" where
  "is_string v = (case v of Some (JString _) \<Rightarrow> True | _ \<Rightarrow> False)"

definition DownloadResult :: "json \<Rightarrow> bool" where
  "DownloadResult v \<longleftrightarrow>
     (case v of JObject _ \<Rightarrow> True | _ \<Rightarrow> False) \<and>
     is_string (js_get v ''status'') \<and> is_string (js_get v ''message'') \<and>
     is_string (js_get v ''filename'') \<and> is_string (js_get v ''download_url'')"

section \<open>The submit handler\<close>

text \<open>
  The request that \<open>fetch\<close> is called with. \<open>req_body\<close> is the value that
  \<open>JSON.stringify\<close> serialises.
\<close>

record request =
  req_url :: string
  req_method :: string
  req_headers :: "(string \<times> string) list"
  req_body :: json

text \<open>
  How the call of \<open>fetch\<close> ends: the promise is rejected, or it resolves to a response
  with a status code, whose \<open>json()\<close> in turn resolves to a value or is rejected.
\<close>

datatype body_result = BodyJson json | BodyRejected js_thrown

datatype fetch_outcome = FetchRejected js_thrown | FetchResponse nat body_result

definition ok :: "nat \<Rightarrow> bool" where
  "ok code \<longleftrightarrow> 200 \<le> code \<and> code \<le> 299"

text \<open>
  \<open>handleDownload\<close> is an \<open>async\<close> function. \<open>handleDownload_submit\<close> is its run from the
  submit event to the first \<open>await\<close> or to an early \<open>return\<close>: it gives the state it leaves
  and the request it has passed to \<open>fetch\<close>, if any.
\<close>

definition handleDownload_submit :: "host \<Rightarrow> state \<Rightarrow> state \<times> request option" where
  \<open>handleDownload_submit h s =
     (let trimmed = trim (url s) in
      if trimmed = [] then (s, None)
      else
        (case URL_scheme h trimmed of
           None \<Rightarrow>
             (s\<lparr>errorMsg := ''Invalid URL. Please enter a valid http or https URL.'',
                status := Error\<rparr>, None)
         | Some scheme \<Rightarrow>
             if protocol scheme \<noteq> ''http:'' \<and> protocol scheme \<noteq> ''https:'' then
               (s\<lparr>errorMsg := ''Unsupported URL scheme "'' @ protocol scheme @
                               ''". Only http and https are allowed.'',
                  status := Error\<rparr>, None)
             else
               (s\<lparr>status := Loading, result := JNull, errorMsg := []\<rparr>,
                Some \<lparr>req_url = API_BASE h @ ''/api/download'',
                      req_method = ''POST'',
                      req_headers = [(''Content-Type'', ''application/json'')],
                      req_body = JObject [(''url'', JString trimmed)]\<rparr>)))\<close>

text \<open>
  The value thrown by \<open>throw new Error(data.detail ?? `Server error ${res.status}`)\<close>:
  reading \<open>detail\<close> of \<open>null\<close> throws; \<open>??\<close> takes the right operand for \<open>undefined\<close> and
  for \<open>null\<close>; the constructor converts its argument to a string, which may throw.
\<close>

definition server_error :: "host \<Rightarrow> json \<Rightarrow> nat \<Rightarrow> js_thrown" where
  "server_error h data code =
     (if data = JNull then ErrorInstance (null_read_message h)
      else
        (case (case js_get data ''detail'' of
                 None \<Rightarrow> Inr (''Server error '' @ digits code)
               | Some d \<Rightarrow>
                   if d = JNull then Inr (''Server error '' @ digits code)
                   else js_ToString h d) of
           Inl e \<Rightarrow> e
         | Inr m \<Rightarrow> ErrorInstance m))"

text \<open>The \<open>catch\<close> clause around the request.\<close>

definition caught :: "js_thrown \<Rightarrow> state \<Rightarrow> state" where
  "caught err s =
     (let msg = (case err of ErrorInstance m \<Rightarrow> m | NonError \<Rightarrow> ''Unknown error occurred'')
      in s\<lparr>errorMsg := msg, status := Error\<rparr>)"

text \<open>The interpolation of a template literal: \<open>undefined\<close> gives \<open>undefined\<close>.\<close>

definition interpolate :: "host \<Rightarrow> json option \<Rightarrow> js_thrown + string" where
  "interpolate h v = (case v of None \<Rightarrow> Inr ''undefined'' | Some w \<Rightarrow> js_ToString h w)"

text \<open>
  Writing a signal runs, inside the call, what depends on it. After \<open>setResult(data)\<close>
  the call \<open>setStatus('success')\<close> therefore renders the success panel when \<open>data\<close> is
  truthy, and what is thrown while rendering leaves \<open>setStatus\<close> as an exception, within
  the \<open>try\<close> of the handler. \<open>render_panel h data\<close> is the first thing thrown there, if
  any, in the order of the markup: the child \<open>{res().filename}\<close> (a string or a number
  becomes text, \<open>undefined\<close>, \<open>null\<close> and a boolean nothing, an array or an object is the
  framework's affair), the template literal of \<open>href\<close>, and the attribute \<open>download\<close>
  (removed for \<open>undefined\<close> and \<open>null\<close>, otherwise converted to a string).
\<close>

definition insert_text :: "host \<Rightarrow> json option \<Rightarrow> js_thrown option" where
  "insert_text h v =
     (case v of
        Some (JArray xs) \<Rightarrow> map_option ErrorInstance (insert_child h (JArray xs))
      | Some (JObject kvs) \<Rightarrow> map_option ErrorInstance (insert_child h (JObject kvs))
      | _ \<Rightarrow> None)"

definition set_attribute :: "host \<Rightarrow> json option \<Rightarrow> js_thrown option" where
  "set_attribute h v =
     (case v of
        None \<Rightarrow> None
      | Some w \<Rightarrow>
          if w = JNull then None
          else (case js_ToString h w of Inl e \<Rightarrow> Some e | Inr _ \<Rightarrow> None))"

definition render_panel :: "host \<Rightarrow> json \<Rightarrow> js_thrown option" where
  "render_panel h data =
     (if \<not> js_truthy data then None
      else
        (case insert_text h (js_get data ''filename'') of
           Some e \<Rightarrow> Some e
         | None \<Rightarrow>
             (case interpolate h (js_get data ''download_url'') of
                Inl e \<Rightarrow> Some e
              | Inr _ \<Rightarrow> set_attribute h (js_get data ''filename''))))"

text \<open>
  \<open>handleDownload_resume\<close> is the rest of the handler, from the settling of \<open>fetch\<close> to
  its end, in a state whose status is \<open>loading\<close>. It reads no signal, so the two further
  \<open>await\<close>s in it do not matter to what it leaves. When rendering throws, the \<open>catch\<close>
  clause runs with the result and the status \<open>success\<close> already written.
\<close>

definition handleDownload_resume :: "host \<Rightarrow> fetch_outcome \<Rightarrow> state \<Rightarrow> state" where
  "handleDownload_resume h out s =
     (case out of
        FetchRejected err \<Rightarrow> caught err s
      | FetchResponse code body \<Rightarrow>
          if \<not> ok code then
            (let data = (case body of BodyJson v \<Rightarrow> v | BodyRejected _ \<Rightarrow> JObject [])
             in caught (server_error h data code) s)
          else
            (case body of
               BodyRejected err \<Rightarrow> caught err s
             | BodyJson data \<Rightarrow>
                 (case render_panel h data of
                    None \<Rightarrow> s\<lparr>result := data, status := Success\<rparr>
                  | Some err \<Rightarrow> caught err (s\<lparr>result := data, status := Success\<rparr>))))"

text \<open>
  Whether the settling of \<open>fetch\<close> ends in such a throw. The update of the page that
  \<open>setStatus('success')\<close> had begun is then abandoned.
\<close>

definition render_aborted :: "host \<Rightarrow> fetch_outcome \<Rightarrow> bool" where
  "render_aborted h out =
     (case out of
        FetchResponse code (BodyJson data) \<Rightarrow> ok code \<and> render_panel h data \<noteq> None
      | _ \<Rightarrow> False)"

definition reset :: "state \<Rightarrow> state" where
  "reset s = s\<lparr>url := [], status := Idle, result := JNull, errorMsg := []\<rparr>"

section \<open>The view\<close>

text \<open>
  What the markup makes of the signals, on a page that follows them: the input and the
  submit button are disabled while loading; the success panel, with the link and a reset
  button, is shown when the status is \<open>success\<close> and the result is truthy; the error
  panel, with the message and a reset button, when the status is \<open>error\<close>.
\<close>

definition input_disabled :: "state \<Rightarrow> bool" where
  "input_disabled s = isLoading s"

definition submit_disabled :: "state \<Rightarrow> bool" where
  "submit_disabled s = isLoading s"

definition success_shown :: "state \<Rightarrow> bool" where
  "success_shown s \<longleftrightarrow> status s = Success \<and> js_truthy (result s)"

definition error_shown :: "state \<Rightarrow> bool" where
  "error_shown s \<longleftrightarrow> status s = Error"

definition reset_shown :: "state \<Rightarrow> bool" where
  "reset_shown s \<longleftrightarrow> success_shown s \<or> error_shown s"

text \<open>
  The attributes of the link in the success panel, when it is shown: \<open>href\<close>, the value of
  \<open>`${API_BASE}${res().download_url}`\<close>, and \<open>download\<close>, the value of \<open>res().filename\<close>.
\<close>

record link =
  href :: "js_thrown + string"
  download :: "json option"

definition download_link :: "host \<Rightarrow> state \<Rightarrow> link option" where
  "download_link h s =
     (if success_shown s then
        Some \<lparr>href = (case interpolate h (js_get (result s) ''download_url'') of
                        Inl e \<Rightarrow> Inl e
                      | Inr t \<Rightarrow> Inr (API_BASE h @ t)),
              download = js_get (result s) ''filename''\<rparr>
      else None)"

section \<open>Sessions\<close>

text \<open>
  A session is a sequence of events on the page: typing into the input, submitting the
  form, the settling of the request in flight, a click on a reset button. \<open>in_flight\<close>
  holds the requests passed to \<open>fetch\<close> that have not settled yet. \<open>ui_step\<close> is what an
  event does on a page that follows its signals: an event that the view does not offer
  in a state leaves it as it is. The browser's own checks of the field (\<open>required\<close>,
  \<open>type="url"\<close>) can only withhold submit events; they are not modelled, so the sessions
  of the page are among the sessions here.
\<close>

datatype event = Input string | Submit | Settle fetch_outcome | Reset

record world =
  app :: state
  in_flight :: "request list"

definition ui_step :: "host \<Rightarrow> 'a world_scheme \<Rightarrow> event \<Rightarrow> 'a world_scheme" where
  "ui_step h w ev =
     (case ev of
        Input v \<Rightarrow>
          if input_disabled (app w) then w else w\<lparr>app := (app w)\<lparr>url := v\<rparr>\<rparr>
      | Submit \<Rightarrow>
          if submit_disabled (app w) then w
          else
            (case handleDownload_submit h (app w) of
               (s', None) \<Rightarrow> w\<lparr>app := s'\<rparr>
             | (s', Some q) \<Rightarrow> w\<lparr>app := s', in_flight := in_flight w @ [q]\<rparr>)
      | Settle out \<Rightarrow>
          (case in_flight w of
             [] \<Rightarrow> w
           | q # qs \<Rightarrow> w\<lparr>app := handleDownload_resume h out (app w), in_flight := qs\<rparr>)
      | Reset \<Rightarrow>
          if reset_shown (app w) then w\<lparr>app := reset (app w)\<rparr> else w)"

text \<open>
  The page stops following its signals when rendering throws inside \<open>setStatus\<close>: what
  was waiting to be updated is dropped and is not scheduled again, so the page stays as
  it was while loading, with the input and the submit button disabled and no panel,
  whatever the signals hold from then on. \<open>frozen\<close> records that. No event reaches a
  handler on a frozen page.
\<close>

record page = world +
  frozen :: bool

definition page_start :: page where
  "page_start = \<lparr>app = initial, in_flight = [], frozen = False\<rparr>"

definition page_step :: "host \<Rightarrow> page \<Rightarrow> event \<Rightarrow> page" where
  "page_step h p ev =
     (if frozen p then p
      else
        (ui_step h p ev)
          \<lparr>frozen := (case ev of
                         Settle out \<Rightarrow> in_flight p \<noteq> [] \<and> render_aborted h out
                       | _ \<Rightarrow> False)\<rparr>)"

text \<open>What the page offers: the controls and the panels.\<close>

definition controls_disabled :: "page \<Rightarrow> bool" where
  "controls_disabled p \<longleftrightarrow> frozen p \<or> isLoading (app p)"

definition panel_shown :: "page \<Rightarrow> bool" where
  "panel_shown p \<longleftrightarrow> \<not> frozen p \<and> reset_shown (app p)"

definition run :: "host \<Rightarrow> event list \<Rightarrow> page" where
  "run h evs = foldl (page_step h) page_start evs"

text \<open>
  A host for the closed examples below: its \<open>URL\<close> takes the text before the first colon
  as the scheme, in lower case as the parser returns it, and throws when there is no
  colon; its framework throws nothing on a child that is an array or an object. The
  theorems hold for every host.
\<close>

definition lower :: "char \<Rightarrow> char" where
  "lower c =
     (case map_of (zip ''ABCDEFGHIJKLMNOPQRSTUVWXYZ'' ''abcdefghijklmnopqrstuvwxyz'') c of
        Some l \<Rightarrow> l
      | None \<Rightarrow> c)"

definition example_host :: host where
  "example_host =
     \<lparr>URL_scheme = (\<lambda>s. if CHR '':'' \<in> set s
                         then Some (map lower (takeWhile (\<lambda>c. c \<noteq> CHR '':'') s)) else None),
      VITE_API_BASE = Some ''https://api.example.org/'',
      null_read_message = ''Cannot read properties of null (reading 'detail')'',
      to_primitive_message = ''Cannot convert object to primitive value'',
      insert_child = (\<lambda>v. None)\<rparr>"

section \<open>Notions used to state the properties\<close>

text \<open>\<open>contains_ci p u\<close>: the text \<open>p\<close> occurs somewhere in \<open>u\<close>, in any letter case.\<close>

definition contains_ci :: "string \<Rightarrow> string \<Rightarrow> bool" where
  "contains_ci p u = sublist (map canonicalize p) (map canonicalize u)"

text \<open>The message that the \<open>catch\<close> clause stores for a thrown value.\<close>

definition thrown_message :: "js_thrown \<Rightarrow> string" where
  "thrown_message err =
     (case err of ErrorInstance m \<Rightarrow> m | NonError \<Rightarrow> ''Unknown error occurred'')"

text \<open>The two messages of the guard on the scheme.\<close>

definition validation_message :: "string \<Rightarrow> bool" where
  \<open>validation_message m \<longleftrightarrow>
     m = ''Invalid URL. Please enter a valid http or https URL.'' \<or>
     (\<exists>scheme. m = ''Unsupported URL scheme "'' @ protocol scheme @
                     ''". Only http and https are allowed.'')\<close>

text \<open>
  What holds of the fields in each status, in every session: nothing is in flight unless
  the status is \<open>loading\<close>, and then exactly one request is; a page is frozen only in the
  status \<open>error\<close>, with the result whose rendering threw and the message of what was
  thrown; on a page that is not frozen, a result kept in the status \<open>error\<close> goes with
  a message of the guard.
\<close>

definition session_inv :: "host \<Rightarrow> page \<Rightarrow> bool" where
  "session_inv h p \<longleftrightarrow>
     (case status (app p) of
        Idle \<Rightarrow>
          in_flight p = [] \<and> \<not> frozen p \<and> result (app p) = JNull \<and> errorMsg (app p) = []
      | Loading \<Rightarrow>
          length (in_flight p) = 1 \<and> \<not> frozen p \<and> result (app p) = JNull \<and>
          errorMsg (app p) = []
      | Success \<Rightarrow> in_flight p = [] \<and> \<not> frozen p \<and> errorMsg (app p) = []
      | Error \<Rightarrow>
          in_flight p = [] \<and>
          (if frozen p
           then map_option thrown_message (render_panel h (result (app p))) =
                  Some (errorMsg (app p))
           else result (app p) \<noteq> JNull \<longrightarrow> validation_message (errorMsg (app p))))"

section \<open>Inputs and sessions of the closed examples\<close>

text \<open>
  The payload of a download that succeeded, a rejection whose \<open>detail\<close> is a string, a
  rejection whose \<open>detail\<close> is a list of objects, and a payload whose \<open>download_url\<close> is
  an object that cannot be converted to a string.
\<close>

definition generic_url :: string where
  "generic_url = ''https://example.org/clip''"

definition shared_link :: string where
  "shared_link = ''https://www.facebook.com/sharer.php?u=https://youtu.be/abc''"

definition video_payload :: json where
  "video_payload =
     JObject [(''status'', JString ''ok''), (''message'', JString ''done''),
              (''filename'', JString ''video.mp4''),
              (''download_url'', JString ''/files/video.mp4'')]"

definition unsupported_payload :: json where
  "unsupported_payload = JObject [(''detail'', JString ''unsupported URL'')]"

definition validation_payload :: json where
  "validation_payload =
     JObject [(''detail'',
       JArray [JObject [(''loc'', JArray [JString ''body'', JString ''url'']),
                        (''msg'', JString ''field required''),
                        (''type'', JString ''value_error.missing'')]])]"

definition typed_state :: "string \<Rightarrow> state" where
  "typed_state v = initial\<lparr>url := v\<rparr>"

definition video_state :: state where
  "video_state = typed_state ''https://youtube.com/watch?v=abc''"

definition loading_session :: "event list" where
  "loading_session = [Input ''https://youtu.be/abc'', Submit]"

definition loading_state :: state where
  "loading_state = app (run example_host loading_session)"

definition success_session :: "event list" where
  "success_session =
     [Input ''https://youtube.com/watch?v=abc'', Submit,
      Settle (FetchResponse 200 (BodyJson video_payload))]"

definition stale_session :: "event list" where
  "stale_session = success_session @ [Input ''ftp://x'', Submit]"

definition null_session :: "event list" where
  "null_session =
     [Input ''https://youtube.com/watch?v=abc'', Submit,
      Settle (FetchResponse 200 (BodyJson JNull))]"

definition offline_session :: "event list" where
  "offline_session =
     [Input ''https://youtube.com/watch?v=abc'', Submit,
      Settle (FetchRejected (ErrorInstance ''Failed to fetch''))]"

definition rejected_session :: "event list" where
  "rejected_session =
     [Input ''https://youtube.com/watch?v=abc'', Submit,
      Settle (FetchResponse 422 (BodyJson validation_payload))]"

definition throwing_payload :: json where
  "throwing_payload =
     JObject [(''status'', JString ''ok''), (''message'', JString ''done''),
              (''filename'', JString ''video.mp4''),
              (''download_url'', JObject [(''toString'', JString ''/files/video.mp4'')])]"

definition frozen_session :: "event list" where
  "frozen_session =
     [Input ''https://youtube.com/watch?v=abc'', Submit,
      Settle (FetchResponse 200 (BodyJson throwing_payload))]"

definition blank_session :: "event list" where
  "blank_session = [Input ''ftp://x'', Submit, Input ''  '', Submit]"

section \<open>Facts about the matcher\<close>

lemma rx_match_lit:
  "rx_match True (lit p) (k, s) =
     (if prefix (map canonicalize p) (map canonicalize s) then [(k + length p, drop (length p) s)] else [])"
  by (induction p arbitrary: k s) (auto simp: lit_def split: list.splits)

lemma rx_search_Alt: "rx_search ic (Alt a b) k s \<longleftrightarrow> rx_search ic a k s \<or> rx_search ic b k s"
  by (induction s arbitrary: k) auto

lemma rx_search_lit: "rx_search True (lit p) k s \<longleftrightarrow> contains_ci p s"
  unfolding contains_ci_def
  by (induction s arbitrary: k) (auto simp: rx_match_lit sublist_Cons_right)

lemma rx_search_Bol:
  "rx_search ic (Seq Bol r) k s \<longleftrightarrow> k = 0 \<and> rx_match ic r (0, s) \<noteq> []"
  by (induction s arbitrary: k) auto

lemma rx_match_Seq_lit:
  "rx_match True (Seq (lit p) r) (k, s) =
     (if prefix (map canonicalize p) (map canonicalize s)
      then rx_match True r (k + length p, drop (length p) s) else [])"
  by (simp add: rx_match_lit)

lemma prefix_split:
  "prefix (a @ b) s \<longleftrightarrow> prefix a s \<and> prefix b (drop (length a) s)"
  by (metis append_eq_conv_conj prefix_def prefixI append.assoc)

lemma test_lit: "test \<lparr>source = lit p, ignoreCase = True\<rparr> u \<longleftrightarrow> contains_ci p u"
  by (simp add: test_def rx_search_lit)

lemma test_Alt_lit:
  "test \<lparr>source = Alt (lit p) (lit q), ignoreCase = True\<rparr> u \<longleftrightarrow> contains_ci p u \<or> contains_ci q u"
  by (simp add: test_def rx_search_Alt rx_search_lit)

lemma rx_match_Opt_Chr_lit:
  "rx_match True (Seq (Opt (Chr c)) (lit q)) (k, t) \<noteq> [] \<longleftrightarrow>
     prefix (map canonicalize (c # q)) (map canonicalize t) \<or>
     prefix (map canonicalize q) (map canonicalize t)"
  by (cases t) (auto simp: rx_match_lit)

lemma test_Generic:
  "test \<lparr>source = Seq Bol (Seq (lit ''http'') (Seq (Opt (Chr CHR ''s'')) (lit ''://''))),
         ignoreCase = True\<rparr> u \<longleftrightarrow>
   prefix (map canonicalize ''http://'') (map canonicalize u) \<or>
   prefix (map canonicalize ''https://'') (map canonicalize u)"
proof -
  let ?m = "map canonicalize"
  have a: "?m ''http://'' = ?m ''http'' @ ?m ''://''"
    and b: "?m ''https://'' = ?m ''http'' @ ?m ''s://''"
    by simp_all
  have "test \<lparr>source = Seq Bol (Seq (lit ''http'') (Seq (Opt (Chr CHR ''s'')) (lit ''://''))),
         ignoreCase = True\<rparr> u \<longleftrightarrow>
        prefix (?m ''http'') (?m u) \<and>
        (prefix (?m ''s://'') (?m (drop (length ''http'') u)) \<or>
         prefix (?m ''://'') (?m (drop (length ''http'') u)))"
    unfolding test_def
    by (simp only: rx_search_Bol rx_match_Seq_lit RegExp.simps)
       (simp only: rx_match_Opt_Chr_lit if_distrib[of "\<lambda>x. x \<noteq> []"], simp)
  also have "\<dots> \<longleftrightarrow> prefix (?m ''http://'') (?m u) \<or> prefix (?m ''https://'') (?m u)"
    unfolding a b prefix_split by (auto simp: drop_map)
  finally show ?thesis .
qed

lemma detectPlatform_cases:
  "detectPlatform u =
     (if contains_ci ''youtube.com'' u \<or> contains_ci ''youtu.be'' u then Some ''YouTube''
      else if contains_ci ''instagram.com'' u then Some ''Instagram''
      else if contains_ci ''tiktok.com'' u then Some ''TikTok''
      else if contains_ci ''facebook.com'' u \<or> contains_ci ''fb.watch'' u then Some ''Facebook''
      else if prefix (map canonicalize ''http://'') (map canonicalize u) \<or>
              prefix (map canonicalize ''https://'') (map canonicalize u) then Some ''Generic''
      else None)"
  unfolding detectPlatform_def PLATFORMS_def
  by (simp only: find.simps platform_sig.simps test_lit test_Alt_lit test_Generic) simp

lemma contains_ci_nonempty: "contains_ci p u \<Longrightarrow> p \<noteq> [] \<Longrightarrow> u \<noteq> []"
  by (auto simp: contains_ci_def)

lemma prefix_ci: "prefix p u \<Longrightarrow> prefix (map canonicalize p) (map canonicalize u)"
  by (auto simp: prefix_def)

section \<open>Facts about the handler and about sessions\<close>

lemma submit_None:
  "handleDownload_submit h s = (s', None) \<Longrightarrow>
     s' = s \<or>
     (status s' = Error \<and> result s' = result s \<and> url s' = url s \<and>
      validation_message (errorMsg s'))"
  by (auto simp: handleDownload_submit_def validation_message_def Let_def
      split: if_splits option.splits)

lemma submit_Some:
  "handleDownload_submit h s = (s', Some q) \<Longrightarrow>
     status s' = Loading \<and> result s' = JNull \<and> errorMsg s' = [] \<and> url s' = url s"
  by (auto simp: handleDownload_submit_def Let_def split: if_splits option.splits)

lemma caught_fields:
  "status (caught e s) = Error" "result (caught e s) = result s" "url (caught e s) = url s"
  "errorMsg (caught e s) = thrown_message e"
  by (simp_all add: caught_def thrown_message_def Let_def)

lemma resume_not_aborted:
  "\<not> render_aborted h out \<Longrightarrow>
     (status (handleDownload_resume h out s) = Error \<and>
        result (handleDownload_resume h out s) = result s) \<or>
     (status (handleDownload_resume h out s) = Success \<and>
        errorMsg (handleDownload_resume h out s) = errorMsg s)"
  by (auto simp: handleDownload_resume_def render_aborted_def caught_fields Let_def
      split: fetch_outcome.splits body_result.splits option.splits)

lemma resume_aborted:
  "render_aborted h out \<Longrightarrow>
     status (handleDownload_resume h out s) = Error \<and>
     map_option thrown_message (render_panel h (result (handleDownload_resume h out s))) =
       Some (errorMsg (handleDownload_resume h out s))"
  by (auto simp: handleDownload_resume_def render_aborted_def caught_fields
      split: fetch_outcome.splits body_result.splits option.splits)

lemma session_inv_start: "session_inv h page_start"
  by (simp add: session_inv_def page_start_def initial_def)

lemma session_inv_ui_step:
  assumes "session_inv h p" and "\<not> frozen p"
  shows "session_inv h
           ((ui_step h p ev)
              \<lparr>frozen := (case ev of
                             Settle out \<Rightarrow> in_flight p \<noteq> [] \<and> render_aborted h out
                           | _ \<Rightarrow> False)\<rparr>)"
proof (cases ev)
  case (Input v)
  with assms show ?thesis
    by (auto simp: ui_step_def session_inv_def input_disabled_def isLoading_def
        split: AppStatus.splits)
next
  case Submit
  show ?thesis
  proof (cases "submit_disabled (app p)")
    case True
    with Submit assms show ?thesis
      by (auto simp: ui_step_def session_inv_def split: AppStatus.splits)
  next
    case False
    then have nl: "status (app p) \<noteq> Loading"
      by (simp add: submit_disabled_def isLoading_def)
    with assms have nf: "in_flight p = []"
      by (auto simp: session_inv_def split: AppStatus.splits)
    obtain s' r where hs: "handleDownload_submit h (app p) = (s', r)"
      by (cases "handleDownload_submit h (app p)")
    show ?thesis
    proof (cases r)
      case None
      with hs submit_None
      have "s' = app p \<or> (status s' = Error \<and> validation_message (errorMsg s'))"
        by blast
      then show ?thesis
        using Submit False hs None assms nf
        by (auto simp: ui_step_def session_inv_def split: AppStatus.splits)
    next
      case (Some q)
      with hs submit_Some
      have "status s' = Loading \<and> result s' = JNull \<and> errorMsg s' = []" by blast
      then show ?thesis
        using Submit False hs Some nf
        by (simp add: ui_step_def session_inv_def)
    qed
  qed
next
  case (Settle out)
  show ?thesis
  proof (cases "in_flight p")
    case Nil
    with Settle assms show ?thesis
      by (auto simp: ui_step_def session_inv_def split: AppStatus.splits)
  next
    case (Cons q qs)
    with assms
    have l: "status (app p) = Loading \<and> qs = [] \<and> errorMsg (app p) = [] \<and>
        result (app p) = JNull"
      by (auto simp: session_inv_def split: AppStatus.splits)
    show ?thesis
    proof (cases "render_aborted h out")
      case True
      from resume_aborted [OF True, of "app p"] l Settle Cons True show ?thesis
        by (simp add: ui_step_def session_inv_def)
    next
      case False
      from resume_not_aborted [OF False, of "app p"] l Settle Cons False show ?thesis
        by (auto simp: ui_step_def session_inv_def)
    qed
  qed
next
  case Reset
  with assms show ?thesis
    by (auto simp: ui_step_def session_inv_def reset_def reset_shown_def success_shown_def
        error_shown_def split: AppStatus.splits)
qed

lemma session_inv_step: "session_inv h p \<Longrightarrow> session_inv h (page_step h p ev)"
  by (simp add: page_step_def session_inv_ui_step)

lemma run_snoc: "run h (evs @ [ev]) = page_step h (run h evs) ev"
  by (simp add: run_def)

lemma session_inv_run: "session_inv h (run h evs)"
proof (induction evs rule: rev_induct)
  case Nil
  show ?case by (simp add: run_def session_inv_start)
next
  case (snoc ev evs)
  then show ?case by (simp add: run_snoc session_inv_step)
qed

lemma server_error_null_body:
  "\<not> ok code \<Longrightarrow>
     errorMsg (handleDownload_resume h (FetchResponse code (BodyJson JNull)) s) =
       null_read_message h"
  by (simp add: handleDownload_resume_def caught_def server_error_def)

section \<open>The result and the error message\<close>

text \<open>
  Claim C1, as the code has it. In every session, while the status is \<open>idle\<close> or
  \<open>loading\<close> there is neither a result nor an error message, and while it is \<open>success\<close>
  there is no error message. So an error message is there only in the status \<open>error\<close>,
  in which the result is not displayed. A result is kept in the status \<open>error\<close> in two
  cases only. On a page that follows its signals the message is then one of the two
  messages of the guard on the scheme: the guard stores its message and leaves an
  earlier result as it is. On a frozen page, which shows no panel, the result is the one
  whose rendering threw and the message is that of what was thrown. Every run of the
  handler that issues a request enters \<open>loading\<close> with both fields cleared.
\<close>

theorem result_error_exclusion:
  "(status (app (run h evs)) = Idle \<or> status (app (run h evs)) = Loading \<longrightarrow>
      result (app (run h evs)) = JNull \<and> errorMsg (app (run h evs)) = []) \<and>
   (status (app (run h evs)) = Success \<longrightarrow> errorMsg (app (run h evs)) = []) \<and>
   (errorMsg (app (run h evs)) \<noteq> [] \<longrightarrow>
      status (app (run h evs)) = Error \<and> download_link h (app (run h evs)) = None) \<and>
   (status (app (run h evs)) = Error \<and> result (app (run h evs)) \<noteq> JNull \<longrightarrow>
      (\<not> frozen (run h evs) \<and> validation_message (errorMsg (app (run h evs)))) \<or>
      (frozen (run h evs) \<and> \<not> panel_shown (run h evs) \<and>
       map_option thrown_message (render_panel h (result (app (run h evs)))) =
         Some (errorMsg (app (run h evs))))) \<and>
   (\<forall>s s' q. handleDownload_submit h s = (s', Some q) \<longrightarrow>
      status s' = Loading \<and> result s' = JNull \<and> errorMsg s' = [])"
proof -
  have "session_inv h (run h evs)" by (rule session_inv_run)
  then have
    "(status (app (run h evs)) = Idle \<or> status (app (run h evs)) = Loading \<longrightarrow>
       result (app (run h evs)) = JNull \<and> errorMsg (app (run h evs)) = []) \<and>
     (status (app (run h evs)) = Success \<longrightarrow> errorMsg (app (run h evs)) = []) \<and>
     (errorMsg (app (run h evs)) \<noteq> [] \<longrightarrow>
       status (app (run h evs)) = Error \<and> download_link h (app (run h evs)) = None) \<and>
     (status (app (run h evs)) = Error \<and> result (app (run h evs)) \<noteq> JNull \<longrightarrow>
       (\<not> frozen (run h evs) \<and> validation_message (errorMsg (app (run h evs)))) \<or>
       (frozen (run h evs) \<and> \<not> panel_shown (run h evs) \<and>
        map_option thrown_message (render_panel h (result (app (run h evs)))) =
          Some (errorMsg (app (run h evs)))))"
    by (cases "status (app (run h evs))")
       (auto simp: session_inv_def download_link_def success_shown_def panel_shown_def
        split: if_splits)
  moreover have "\<forall>s s' q. handleDownload_submit h s = (s', Some q) \<longrightarrow>
      status s' = Loading \<and> result s' = JNull \<and> errorMsg s' = []"
    using submit_Some by blast
  ultimately show ?thesis by blast
qed

text \<open>The theorem at concrete inputs.\<close>

theorem result_error_exclusion_witness:
  "status (app (run example_host loading_session)) = Loading \<and>
   result (app (run example_host loading_session)) = JNull \<and>
   errorMsg (app (run example_host loading_session)) = [] \<and>
   status (app (run example_host success_session)) = Success \<and>
   errorMsg (app (run example_host success_session)) = [] \<and>
   errorMsg (app (run example_host stale_session)) \<noteq> [] \<and>
   status (app (run example_host stale_session)) = Error \<and>
   download_link example_host (app (run example_host stale_session)) = None \<and>
   result (app (run example_host stale_session)) \<noteq> JNull \<and>
   \<not> frozen (run example_host stale_session) \<and>
   validation_message (errorMsg (app (run example_host stale_session))) \<and>
   status (app (run example_host frozen_session)) = Error \<and>
   result (app (run example_host frozen_session)) \<noteq> JNull \<and>
   frozen (run example_host frozen_session) \<and>
   \<not> panel_shown (run example_host frozen_session) \<and>
   map_option thrown_message
     (render_panel example_host (result (app (run example_host frozen_session)))) =
     Some (errorMsg (app (run example_host frozen_session))) \<and>
   snd (handleDownload_submit example_host (typed_state generic_url)) \<noteq> None \<and>
   status (fst (handleDownload_submit example_host (typed_state generic_url))) = Loading"
proof -
  have a: "status (app (run example_host loading_session)) = Loading" by code_simp
  have b: "status (app (run example_host success_session)) = Success" by code_simp
  have c: "errorMsg (app (run example_host stale_session)) \<noteq> []" by code_simp
  have f: "result (app (run example_host stale_session)) \<noteq> JNull \<and>
      \<not> frozen (run example_host stale_session)" by code_simp
  have g: "status (app (run example_host frozen_session)) = Error \<and>
      result (app (run example_host frozen_session)) \<noteq> JNull \<and>
      frozen (run example_host frozen_session)" by code_simp
  have e: "snd (handleDownload_submit example_host (typed_state generic_url)) \<noteq> None"
    by code_simp
  then obtain s' q
    where d: "handleDownload_submit example_host (typed_state generic_url) = (s', Some q)"
    by (cases "handleDownload_submit example_host (typed_state generic_url)") auto
  note L = result_error_exclusion [of example_host loading_session]
  note S = result_error_exclusion [of example_host success_session]
  note T = result_error_exclusion [of example_host stale_session]
  note F = result_error_exclusion [of example_host frozen_session]
  from L a have a': "result (app (run example_host loading_session)) = JNull \<and>
      errorMsg (app (run example_host loading_session)) = []" by blast
  from S b have b': "errorMsg (app (run example_host success_session)) = []" by blast
  from T c have c': "status (app (run example_host stale_session)) = Error \<and>
      download_link example_host (app (run example_host stale_session)) = None" by blast
  from T c' f have f': "validation_message (errorMsg (app (run example_host stale_session)))"
    by blast
  from F g have g': "\<not> panel_shown (run example_host frozen_session) \<and>
     map_option thrown_message
     (render_panel example_host (result (app (run example_host frozen_session)))) =
     Some (errorMsg (app (run example_host frozen_session)))" by blast
  from L d have "status s' = Loading" by blast
  with d have d': "status (fst (handleDownload_submit example_host (typed_state generic_url))) = Loading"
    by simp
  from a a' b b' c c' f f' g g' e d' show ?thesis by (intro conjI) (elim conjE, assumption)+
qed

text \<open>
  A download succeeds, then \<open>ftp://x\<close> is submitted: the status is \<open>error\<close>, the message
  is set and the result of the earlier download is still there.
\<close>

theorem result_error_exclusion_counterexample:
  "status (app (run example_host stale_session)) = Error \<and>
   errorMsg (app (run example_host stale_session)) \<noteq> [] \<and>
   result (app (run example_host stale_session)) = video_payload \<and>
   video_payload \<noteq> JNull"
  by code_simp

section \<open>Failures without a usable response\<close>

text \<open>
  Claim C2, as the code has it. When \<open>fetch\<close> is rejected, or the response has a status
  in the range 200 to 299 and its body cannot be read as JSON, the status becomes
  \<open>error\<close>. The message stored is the \<open>message\<close> of what was thrown when that is an
  instance of \<open>Error\<close> (as the errors of \<open>fetch\<close> and of the JSON parser are), and
  \<open>Unknown error occurred\<close> only when it is not.
\<close>

theorem failure_message:
  assumes "out = FetchRejected err \<or> (ok code \<and> out = FetchResponse code (BodyRejected err))"
  shows "status (handleDownload_resume h out s) = Error \<and>
         (\<forall>m. err = ErrorInstance m \<longrightarrow> errorMsg (handleDownload_resume h out s) = m) \<and>
         (err = NonError \<longrightarrow>
            errorMsg (handleDownload_resume h out s) = ''Unknown error occurred'')"
  using assms by (auto simp: handleDownload_resume_def caught_def)

text \<open>The theorem at concrete inputs.\<close>

theorem failure_message_witness:
  "status (handleDownload_resume example_host
             (FetchRejected (ErrorInstance ''Failed to fetch'')) loading_state) = Error \<and>
   errorMsg (handleDownload_resume example_host
             (FetchRejected (ErrorInstance ''Failed to fetch'')) loading_state) = ''Failed to fetch'' \<and>
   ok 200 \<and>
   errorMsg (handleDownload_resume example_host
             (FetchResponse 200 (BodyRejected NonError)) loading_state) = ''Unknown error occurred''"
proof -
  have k: "ok 200" by (simp add: ok_def)
  from k failure_message [of "FetchRejected (ErrorInstance ''Failed to fetch'')"
      "ErrorInstance ''Failed to fetch''" 0 example_host loading_state]
    failure_message [of "FetchResponse 200 (BodyRejected NonError)" NonError 200
      example_host loading_state]
  show ?thesis by simp
qed

text \<open>
  The network is down: \<open>fetch\<close> is rejected with a \<open>TypeError\<close>, and its message is
  what is stored, not the fallback text.
\<close>

theorem failure_message_counterexample:
  "status (app (run example_host offline_session)) = Error \<and>
   errorMsg (app (run example_host offline_session)) = ''Failed to fetch''"
  by code_simp

section \<open>The guard on the scheme\<close>

text \<open>
  Claim C3. Let the trimmed input be non-empty. If \<open>URL\<close> does not parse it, the handler
  leaves the status \<open>error\<close> with the message \<open>Invalid URL. Please enter a valid http or
  https URL.\<close>; if it parses it with a scheme other than \<open>http\<close> and \<open>https\<close>, the
  status \<open>error\<close> with a message that quotes the scheme (as \<open>protocol\<close>, with its
  colon). In both cases the handler returns before \<open>fetch\<close>: it issues no request, and
  in a session nothing is added to the requests in flight.
\<close>

theorem validation_guard:
  assumes \<open>trim (url s) \<noteq> []\<close>
  shows \<open>(URL_scheme h (trim (url s)) = None \<longrightarrow>
            handleDownload_submit h s =
              (s\<lparr>errorMsg := ''Invalid URL. Please enter a valid http or https URL.'',
                 status := Error\<rparr>, None)) \<and>
         (\<forall>scheme. URL_scheme h (trim (url s)) = Some scheme \<and>
              scheme \<noteq> ''http'' \<and> scheme \<noteq> ''https'' \<longrightarrow>
            handleDownload_submit h s =
              (s\<lparr>errorMsg := ''Unsupported URL scheme "'' @ scheme @
                             '':". Only http and https are allowed.'',
                 status := Error\<rparr>, None)) \<and>
         (\<forall>w. app w = s \<and> \<not> submit_disabled s \<and>
              (\<forall>scheme. URL_scheme h (trim (url s)) = Some scheme \<longrightarrow>
                 scheme \<noteq> ''http'' \<and> scheme \<noteq> ''https'') \<longrightarrow>
            status (app (ui_step h w Submit)) = Error \<and>
            in_flight (ui_step h w Submit) = in_flight w)\<close>
  using assms
  by (auto simp: handleDownload_submit_def ui_step_def protocol_def Let_def
      split: option.splits)

text \<open>The theorem at concrete inputs.\<close>

theorem validation_guard_witness:
  \<open>trim (url (typed_state ''not a url'')) \<noteq> [] \<and>
   URL_scheme example_host (trim (url (typed_state ''not a url''))) = None \<and>
   handleDownload_submit example_host (typed_state ''not a url'') =
     ((typed_state ''not a url'')
        \<lparr>errorMsg := ''Invalid URL. Please enter a valid http or https URL.'',
         status := Error\<rparr>, None) \<and>
   trim (url (typed_state ''ftp://x'')) \<noteq> [] \<and>
   URL_scheme example_host (trim (url (typed_state ''ftp://x''))) = Some ''ftp'' \<and>
   handleDownload_submit example_host (typed_state ''ftp://x'') =
     ((typed_state ''ftp://x'')
        \<lparr>errorMsg := ''Unsupported URL scheme "ftp:". Only http and https are allowed.'',
         status := Error\<rparr>, None) \<and>
   status (app (ui_step example_host \<lparr>app = typed_state ''ftp://x'', in_flight = []\<rparr> Submit)) = Error \<and>
   in_flight (ui_step example_host \<lparr>app = typed_state ''ftp://x'', in_flight = []\<rparr> Submit) = []\<close>
proof -
  have a: "trim (url (typed_state ''not a url'')) \<noteq> []" by code_simp
  have b: "URL_scheme example_host (trim (url (typed_state ''not a url''))) = None" by code_simp
  have c: "trim (url (typed_state ''ftp://x'')) \<noteq> []" by code_simp
  have d: "URL_scheme example_host (trim (url (typed_state ''ftp://x''))) = Some ''ftp''"
    by code_simp
  have e: "\<not> submit_disabled (typed_state ''ftp://x'')" by code_simp
  note A = validation_guard [where ?'a = unit, OF a, of example_host]
  note C = validation_guard [where ?'a = unit, OF c, of example_host]
  from A b have a': "handleDownload_submit example_host (typed_state ''not a url'') =
     ((typed_state ''not a url'')
        \<lparr>errorMsg := ''Invalid URL. Please enter a valid http or https URL.'',
         status := Error\<rparr>, None)" by blast
  from C d have \<open>handleDownload_submit example_host (typed_state ''ftp://x'') =
     ((typed_state ''ftp://x'')
        \<lparr>errorMsg := ''Unsupported URL scheme "'' @ ''ftp'' @
                             '':". Only http and https are allowed.'',
         status := Error\<rparr>, None)\<close> by simp
  then have c': \<open>handleDownload_submit example_host (typed_state ''ftp://x'') =
     ((typed_state ''ftp://x'')
        \<lparr>errorMsg := ''Unsupported URL scheme "ftp:". Only http and https are allowed.'',
         status := Error\<rparr>, None)\<close> by simp
  from C d e have
    "status (app (ui_step example_host \<lparr>app = typed_state ''ftp://x'', in_flight = []\<rparr> Submit)) = Error \<and>
     in_flight (ui_step example_host \<lparr>app = typed_state ''ftp://x'', in_flight = []\<rparr> Submit) =
       in_flight \<lparr>app = typed_state ''ftp://x'', in_flight = []\<rparr>"
    by simp
  then have f: "status (app (ui_step example_host \<lparr>app = typed_state ''ftp://x'', in_flight = []\<rparr> Submit)) = Error \<and>
     in_flight (ui_step example_host \<lparr>app = typed_state ''ftp://x'', in_flight = []\<rparr> Submit) = []"
    by simp
  from a b a' c d c' f show ?thesis by blast
qed

section \<open>Submitting an empty input\<close>

text \<open>
  Claim C4, as the code has it. A submit whose input is empty after trimming changes
  nothing at all, whatever the state: no request is issued and every field stays as it
  was. The status is \<open>idle\<close> afterwards only if it was \<open>idle\<close> before; in the status
  \<open>error\<close> the status and the message stay.
\<close>

theorem empty_submit_noop:
  "trim (url (app w)) = [] \<Longrightarrow>
     handleDownload_submit h (app w) = (app w, None) \<and> ui_step h w Submit = w"
  by (simp add: handleDownload_submit_def ui_step_def)

text \<open>The theorem at concrete inputs.\<close>

theorem empty_submit_noop_witness:
  "trim (url (app (run example_host [Input ''ftp://x'', Submit, Input ''  '']))) = [] \<and>
   ui_step example_host (run example_host [Input ''ftp://x'', Submit, Input ''  '']) Submit =
     run example_host [Input ''ftp://x'', Submit, Input ''  '']"
proof -
  have a: "trim (url (app (run example_host [Input ''ftp://x'', Submit, Input ''  '']))) = []"
    by code_simp
  from a empty_submit_noop [OF a, of example_host] show ?thesis by blast
qed

text \<open>
  After a rejected submit the input is replaced by blanks and submitted again: the status
  is still \<open>error\<close> and the message is still there.
\<close>

theorem empty_submit_counterexample:
  "trim (url (app (run example_host [Input ''ftp://x'', Submit, Input ''  '']))) = [] \<and>
   status (app (run example_host [Input ''ftp://x'', Submit, Input ''  ''])) = Error \<and>
   status (app (run example_host blank_session)) = Error \<and>
   errorMsg (app (run example_host blank_session)) \<noteq> []"
  by code_simp

section \<open>Platform detection: first match in table order\<close>

text \<open>
  Claim C5. The table lists YouTube, Instagram, TikTok, Facebook, Generic in this order.
  For a non-empty input, \<open>platform\<close> returns the name of the first entry of the table
  whose regular expression matches, and nothing when no entry matches. An input that
  begins with \<open>http://\<close> or \<open>https://\<close> is matched by the last entry, Generic, so it
  is classified. For the empty input \<open>platform\<close> returns nothing, and so does
  \<open>detectPlatform\<close>, with which \<open>platform\<close> agrees on every other input.
\<close>

theorem detect_first_match:
  "map name PLATFORMS = [''YouTube'', ''Instagram'', ''TikTok'', ''Facebook'', ''Generic''] \<and>
   (u \<noteq> [] \<longrightarrow>
      (\<forall>n. platform u = Some n \<longleftrightarrow>
         (\<exists>i < length PLATFORMS. n = name (PLATFORMS ! i) \<and> test (pattern (PLATFORMS ! i)) u \<and>
            (\<forall>j < i. \<not> test (pattern (PLATFORMS ! j)) u))) \<and>
      (platform u = None \<longleftrightarrow> (\<forall>i < length PLATFORMS. \<not> test (pattern (PLATFORMS ! i)) u))) \<and>
   (prefix ''http://'' u \<or> prefix ''https://'' u \<longrightarrow>
      test (pattern (PLATFORMS ! 4)) u \<and> platform u \<noteq> None) \<and>
   (u \<noteq> [] \<longrightarrow> platform u = detectPlatform u) \<and>
   platform [] = None \<and> detectPlatform [] = None"
proof (intro conjI impI allI)
  show "map name PLATFORMS = [''YouTube'', ''Instagram'', ''TikTok'', ''Facebook'', ''Generic'']"
    by (simp add: PLATFORMS_def)
next
  fix n assume "u \<noteq> []"
  then show "platform u = Some n \<longleftrightarrow>
         (\<exists>i < length PLATFORMS. n = name (PLATFORMS ! i) \<and> test (pattern (PLATFORMS ! i)) u \<and>
            (\<forall>j < i. \<not> test (pattern (PLATFORMS ! j)) u))"
    unfolding platform_def detectPlatform_def
    by (auto simp: find_Some_iff)
next
  assume "u \<noteq> []"
  then show "platform u = None \<longleftrightarrow> (\<forall>i < length PLATFORMS. \<not> test (pattern (PLATFORMS ! i)) u)"
    unfolding platform_def detectPlatform_def
    by (auto simp: find_None_iff in_set_conv_nth)
next
  assume h: "prefix ''http://'' u \<or> prefix ''https://'' u"
  then have g: "prefix (map canonicalize ''http://'') (map canonicalize u) \<or>
              prefix (map canonicalize ''https://'') (map canonicalize u)"
    using prefix_ci by blast
  then show "test (pattern (PLATFORMS ! 4)) u"
    by (simp add: PLATFORMS_def test_Generic)
  from h have "u \<noteq> []" by auto
  with g show "platform u \<noteq> None"
    by (simp add: platform_def detectPlatform_cases)
next
  assume "u \<noteq> []"
  then show "platform u = detectPlatform u" by (simp add: platform_def)
next
  show "platform [] = None" by (simp add: platform_def)
next
  show "detectPlatform [] = None" by (simp add: detectPlatform_cases contains_ci_def)
qed

text \<open>The theorem at concrete inputs.\<close>

theorem detect_first_match_witness:
  "generic_url \<noteq> [] \<and> prefix ''https://'' generic_url \<and>
   platform generic_url = Some ''Generic'' \<and>
   test (pattern (PLATFORMS ! 4)) generic_url \<and>
   (\<exists>i < length PLATFORMS. ''Generic'' = name (PLATFORMS ! i) \<and>
       test (pattern (PLATFORMS ! i)) generic_url \<and>
       (\<forall>j < i. \<not> test (pattern (PLATFORMS ! j)) generic_url))"
proof -
  have ne: "generic_url \<noteq> []" by (simp add: generic_url_def)
  have pre: "prefix ''https://'' generic_url" by (simp add: generic_url_def)
  have val: "platform generic_url = Some ''Generic''" by code_simp
  note T = detect_first_match [of generic_url]
  from T ne val have
    "\<exists>i < length PLATFORMS. ''Generic'' = name (PLATFORMS ! i) \<and>
       test (pattern (PLATFORMS ! i)) generic_url \<and>
       (\<forall>j < i. \<not> test (pattern (PLATFORMS ! j)) generic_url)"
    by blast
  moreover from T pre have "test (pattern (PLATFORMS ! 4)) generic_url" by blast
  ultimately show ?thesis using ne pre val by blast
qed

section \<open>A download that succeeds\<close>

text \<open>
  Claim C6, as the code has it. Let the trimmed input be non-empty and parse with the
  scheme \<open>http\<close> or \<open>https\<close>. The handler then enters \<open>loading\<close>, with result and message
  cleared, and posts the trimmed input to \<open>{API_BASE}/api/download\<close>. When the response
  has a status in the range 200 to 299 and a body that parses as JSON, the parsed value
  is stored as the result, unchanged, and the status becomes \<open>success\<close>, unless rendering
  the success panel for that value throws: then the status becomes \<open>error\<close>. When the
  value has the members \<open>download_url\<close> and \<open>filename\<close>, both strings, rendering does not
  throw: the status is \<open>success\<close> and the link is shown, with \<open>{API_BASE}{download_url}\<close>
  as its target and \<open>filename\<close> as the name to save under.
\<close>

theorem success_path:
  assumes "trim (url s) \<noteq> []"
    and "URL_scheme h (trim (url s)) = Some scheme"
    and "scheme = ''http'' \<or> scheme = ''https''"
    and "ok code"
  shows "handleDownload_submit h s =
           (s\<lparr>status := Loading, result := JNull, errorMsg := []\<rparr>,
            Some \<lparr>req_url = API_BASE h @ ''/api/download'', req_method = ''POST'',
                  req_headers = [(''Content-Type'', ''application/json'')],
                  req_body = JObject [(''url'', JString (trim (url s)))]\<rparr>) \<and>
         result (handleDownload_resume h (FetchResponse code (BodyJson data))
                   (s\<lparr>status := Loading, result := JNull, errorMsg := []\<rparr>)) = data \<and>
         status (handleDownload_resume h (FetchResponse code (BodyJson data))
                   (s\<lparr>status := Loading, result := JNull, errorMsg := []\<rparr>)) =
           (if render_panel h data = None then Success else Error) \<and>
         (\<forall>d f. js_get data ''download_url'' = Some (JString d) \<and>
                js_get data ''filename'' = Some (JString f) \<longrightarrow>
            status (handleDownload_resume h (FetchResponse code (BodyJson data))
                   (s\<lparr>status := Loading, result := JNull, errorMsg := []\<rparr>)) = Success \<and>
            download_link h (handleDownload_resume h (FetchResponse code (BodyJson data))
                   (s\<lparr>status := Loading, result := JNull, errorMsg := []\<rparr>)) =
              Some \<lparr>href = Inr (API_BASE h @ d), download = Some (JString f)\<rparr>)"
proof -
  have t: "js_get data ''filename'' = Some (JString f) \<Longrightarrow> js_truthy data" for f
    by (cases data) (simp_all add: js_get_def js_truthy_def)
  have r: "js_get data ''download_url'' = Some (JString d) \<Longrightarrow>
      js_get data ''filename'' = Some (JString f) \<Longrightarrow> render_panel h data = None" for d f
    by (simp add: render_panel_def insert_text_def set_attribute_def interpolate_def)
  from assms show ?thesis
    by (auto simp: handleDownload_submit_def handleDownload_resume_def protocol_def Let_def
        download_link_def success_shown_def interpolate_def caught_fields t r
        split: option.splits)
qed

text \<open>The theorem at concrete inputs.\<close>

theorem success_path_witness:
  "status video_state = Idle \<and>
   DownloadResult video_payload \<and>
   trim (url video_state) \<noteq> [] \<and>
   URL_scheme example_host (trim (url video_state)) = Some ''https'' \<and>
   ok 200 \<and>
   js_get video_payload ''download_url'' = Some (JString ''/files/video.mp4'') \<and>
   js_get video_payload ''filename'' = Some (JString ''video.mp4'') \<and>
   status (fst (handleDownload_submit example_host video_state)) = Loading \<and>
   status (handleDownload_resume example_host (FetchResponse 200 (BodyJson video_payload))
             (fst (handleDownload_submit example_host video_state))) = Success \<and>
   result (handleDownload_resume example_host (FetchResponse 200 (BodyJson video_payload))
             (fst (handleDownload_submit example_host video_state))) = video_payload \<and>
   download_link example_host
     (handleDownload_resume example_host (FetchResponse 200 (BodyJson video_payload))
        (fst (handleDownload_submit example_host video_state))) =
     Some \<lparr>href = Inr (API_BASE example_host @ ''/files/video.mp4''),
           download = Some (JString ''video.mp4'')\<rparr> \<and>
   API_BASE example_host = ''https://api.example.org'' \<and>
   render_panel example_host throwing_payload \<noteq> None \<and>
   status (handleDownload_resume example_host (FetchResponse 200 (BodyJson throwing_payload))
             (fst (handleDownload_submit example_host video_state))) = Error \<and>
   result (handleDownload_resume example_host (FetchResponse 200 (BodyJson throwing_payload))
             (fst (handleDownload_submit example_host video_state))) = throwing_payload"
proof -
  have i: "status video_state = Idle" by code_simp
  have j: "DownloadResult video_payload" by code_simp
  have a: "trim (url video_state) \<noteq> []" by code_simp
  have b: "URL_scheme example_host (trim (url video_state)) = Some ''https''" by code_simp
  have c: "''https'' = ''http'' \<or> ''https'' = ''https''" by simp
  have k: "ok 200" by (simp add: ok_def)
  have d: "js_get video_payload ''download_url'' = Some (JString ''/files/video.mp4'')"
    by code_simp
  have f: "js_get video_payload ''filename'' = Some (JString ''video.mp4'')" by code_simp
  have g: "API_BASE example_host = ''https://api.example.org''" by code_simp
  have n: "render_panel example_host throwing_payload \<noteq> None" by code_simp
  note T = success_path [OF a b c k, of video_payload]
  note U = success_path [OF a b c k, of throwing_payload]
  from T have s1: "fst (handleDownload_submit example_host video_state) =
      video_state\<lparr>status := Loading, result := JNull, errorMsg := []\<rparr>" by simp
  from T d f have l: "status (handleDownload_resume example_host (FetchResponse 200 (BodyJson video_payload))
             (video_state\<lparr>status := Loading, result := JNull, errorMsg := []\<rparr>)) = Success \<and>
     download_link example_host
     (handleDownload_resume example_host (FetchResponse 200 (BodyJson video_payload))
        (video_state\<lparr>status := Loading, result := JNull, errorMsg := []\<rparr>)) =
     Some \<lparr>href = Inr (API_BASE example_host @ ''/files/video.mp4''),
           download = Some (JString ''video.mp4'')\<rparr>" by blast
  from T have r: "result (handleDownload_resume example_host (FetchResponse 200 (BodyJson video_payload))
             (video_state\<lparr>status := Loading, result := JNull, errorMsg := []\<rparr>)) = video_payload"
    by blast
  from U n have v: "status (handleDownload_resume example_host (FetchResponse 200 (BodyJson throwing_payload))
             (video_state\<lparr>status := Loading, result := JNull, errorMsg := []\<rparr>)) = Error \<and>
     result (handleDownload_resume example_host (FetchResponse 200 (BodyJson throwing_payload))
             (video_state\<lparr>status := Loading, result := JNull, errorMsg := []\<rparr>)) = throwing_payload"
    by simp
  have m: "status (fst (handleDownload_submit example_host video_state)) = Loading"
    unfolding s1 by simp
  from i j a b k d f g n m r l v show ?thesis
    unfolding s1 by (intro conjI) (elim conjE, assumption)+
qed

text \<open>
  The body of a response with status 200 is the JSON text \<open>null\<close>: the status becomes
  \<open>success\<close>, the result is \<open>null\<close>, and no link is shown.
\<close>

theorem success_path_counterexample:
  "status (app (run example_host null_session)) = Success \<and>
   result (app (run example_host null_session)) = JNull \<and>
   download_link example_host (app (run example_host null_session)) = None"
  by code_simp

section \<open>A response with an error status\<close>

text \<open>
  Claim C7, as the code has it. When the response has a status outside the range 200 to
  299, the status of the session becomes \<open>error\<close>. If the body parses as JSON to an
  object whose member \<open>detail\<close> is a string, that string is the message. If the body does
  not parse, or parses to a value other than \<open>null\<close> that has no member \<open>detail\<close> or has
  \<open>null\<close> for it, the message is \<open>Server error\<close> followed by the status code.
\<close>

theorem server_error_message:
  assumes "\<not> ok code"
  shows "status (handleDownload_resume h (FetchResponse code body) s) = Error \<and>
         (\<forall>data d. body = BodyJson data \<and> js_get data ''detail'' = Some (JString d) \<longrightarrow>
            errorMsg (handleDownload_resume h (FetchResponse code body) s) = d) \<and>
         ((\<exists>e. body = BodyRejected e) \<or>
          (\<exists>data. body = BodyJson data \<and> data \<noteq> JNull \<and>
             (js_get data ''detail'' = None \<or> js_get data ''detail'' = Some JNull)) \<longrightarrow>
            errorMsg (handleDownload_resume h (FetchResponse code body) s) =
              ''Server error '' @ digits code)"
proof -
  have g: "js_get data ''detail'' = Some (JString d) \<Longrightarrow> data \<noteq> JNull" for data d
    by (auto simp: js_get_def)
  have e: "js_get (JObject []) ''detail'' = None" by (simp add: js_get_def)
  from assms show ?thesis
    by (auto simp: handleDownload_resume_def caught_def server_error_def e Let_def
        dest: g simp del: digits.simps)
qed

text \<open>The theorem at concrete inputs.\<close>

theorem server_error_message_witness:
  "\<not> ok 422 \<and>
   js_get unsupported_payload ''detail'' = Some (JString ''unsupported URL'') \<and>
   status (handleDownload_resume example_host
             (FetchResponse 422 (BodyJson unsupported_payload)) loading_state) = Error \<and>
   errorMsg (handleDownload_resume example_host
             (FetchResponse 422 (BodyJson unsupported_payload)) loading_state) = ''unsupported URL'' \<and>
   \<not> ok 500 \<and>
   errorMsg (handleDownload_resume example_host
             (FetchResponse 500 (BodyRejected (ErrorInstance ''Unexpected token <''))) loading_state) =
     ''Server error 500''"
proof -
  have a: "\<not> ok 422" and b: "\<not> ok 500" by (simp_all add: ok_def)
  have c: "js_get unsupported_payload ''detail'' = Some (JString ''unsupported URL'')"
    by code_simp
  have d: "''Server error '' @ digits 500 = ''Server error 500''" by code_simp
  note A = server_error_message [OF a, of example_host "BodyJson unsupported_payload" loading_state]
  note B = server_error_message [OF b, of example_host
      "BodyRejected (ErrorInstance ''Unexpected token <'')" loading_state]
  from A c have a': "status (handleDownload_resume example_host
             (FetchResponse 422 (BodyJson unsupported_payload)) loading_state) = Error \<and>
   errorMsg (handleDownload_resume example_host
             (FetchResponse 422 (BodyJson unsupported_payload)) loading_state) = ''unsupported URL''"
    by blast
  from B have "errorMsg (handleDownload_resume example_host
             (FetchResponse 500 (BodyRejected (ErrorInstance ''Unexpected token <''))) loading_state) =
     ''Server error '' @ digits 500" by blast
  with d have b': "errorMsg (handleDownload_resume example_host
             (FetchResponse 500 (BodyRejected (ErrorInstance ''Unexpected token <''))) loading_state) =
     ''Server error 500''" by (simp only:)
  from a b c a' b' show ?thesis by blast
qed

text \<open>
  The response has status 422 and a \<open>detail\<close> that is a list with one object in it: the
  message stored is \<open>[object Object]\<close>.
\<close>

theorem server_error_message_counterexample:
  "status (app (run example_host rejected_session)) = Error \<and>
   errorMsg (app (run example_host rejected_session)) = ''[object Object]'' \<and>
   js_get validation_payload ''detail'' \<noteq> None \<and>
   js_get validation_payload ''detail'' \<noteq> Some (JString ''[object Object]'')"
  by code_simp

section \<open>One request in flight\<close>

text \<open>
  Claim C8. In every session at most one request is in flight, and one is in flight only
  while the status is \<open>loading\<close>, on a page that is not frozen. While the status is
  \<open>loading\<close> the controls are disabled. In a state whose status is \<open>loading\<close> the submit
  control is disabled and a submit leaves everything as it is; so does a submit on every
  page whose controls are disabled, a frozen one included: no second request is issued.
\<close>

theorem one_request_in_flight:
  "length (in_flight (run h evs)) \<le> 1 \<and>
   (in_flight (run h evs) \<noteq> [] \<longrightarrow>
      status (app (run h evs)) = Loading \<and> \<not> frozen (run h evs)) \<and>
   (status (app (run h evs)) = Loading \<longrightarrow> controls_disabled (run h evs)) \<and>
   (\<forall>w. status (app w) = Loading \<longrightarrow> submit_disabled (app w) \<and> ui_step h w Submit = w) \<and>
   (\<forall>p. controls_disabled p \<longrightarrow> page_step h p Submit = p)"
proof -
  have "session_inv h (run h evs)" by (rule session_inv_run)
  then have "length (in_flight (run h evs)) \<le> 1 \<and>
    (in_flight (run h evs) \<noteq> [] \<longrightarrow>
       status (app (run h evs)) = Loading \<and> \<not> frozen (run h evs))"
    by (auto simp: session_inv_def split: AppStatus.splits)
  moreover have "status (app (run h evs)) = Loading \<longrightarrow> controls_disabled (run h evs)"
    by (simp add: controls_disabled_def isLoading_def)
  moreover have
    "\<forall>w. status (app w) = Loading \<longrightarrow> submit_disabled (app w) \<and> ui_step h w Submit = w"
    by (simp add: ui_step_def submit_disabled_def isLoading_def)
  moreover have "\<forall>p. controls_disabled p \<longrightarrow> page_step h p Submit = p"
    by (auto simp: controls_disabled_def page_step_def ui_step_def submit_disabled_def)
  ultimately show ?thesis by blast
qed

text \<open>The theorem at concrete inputs.\<close>

theorem one_request_in_flight_witness:
  "status (app (run example_host loading_session)) = Loading \<and>
   in_flight (run example_host loading_session) \<noteq> [] \<and>
   length (in_flight (run example_host loading_session)) \<le> 1 \<and>
   \<not> frozen (run example_host loading_session) \<and>
   controls_disabled (run example_host loading_session) \<and>
   ui_step example_host (run example_host loading_session) Submit =
     run example_host loading_session \<and>
   page_step example_host (run example_host loading_session) Submit =
     run example_host loading_session \<and>
   status (app (run example_host frozen_session)) = Error \<and>
   controls_disabled (run example_host frozen_session) \<and>
   in_flight (run example_host frozen_session) = [] \<and>
   page_step example_host (run example_host frozen_session) Submit =
     run example_host frozen_session"
proof -
  have a: "status (app (run example_host loading_session)) = Loading" by code_simp
  have b: "in_flight (run example_host loading_session) \<noteq> []" by code_simp
  have c: "status (app (run example_host frozen_session)) = Error \<and>
      controls_disabled (run example_host frozen_session) \<and>
      in_flight (run example_host frozen_session) = []" by code_simp
  note L = one_request_in_flight [of example_host loading_session]
  from L a b have l: "length (in_flight (run example_host loading_session)) \<le> 1 \<and>
      \<not> frozen (run example_host loading_session) \<and>
      controls_disabled (run example_host loading_session)" by blast
  from L a have u: "ui_step example_host (run example_host loading_session) Submit =
      run example_host loading_session" by blast
  from L l have p: "page_step example_host (run example_host loading_session) Submit =
      run example_host loading_session" by blast
  from L c have f: "page_step example_host (run example_host frozen_session) Submit =
      run example_host frozen_session" by blast
  from a b c l u p f show ?thesis by (intro conjI) (elim conjE, assumption)+
qed

section \<open>Reset\<close>

text \<open>
  Claim C9. In a state whose status is \<open>success\<close> or \<open>error\<close>, \<open>reset\<close> gives the state
  with the status \<open>idle\<close>, the empty input, no result and the empty message.
\<close>

theorem reset_clears:
  "status s = Success \<or> status s = Error \<Longrightarrow>
     reset s = \<lparr>url = [], status = Idle, result = JNull, errorMsg = []\<rparr>"
  by (cases s) (simp add: reset_def)

text \<open>The theorem at concrete inputs.\<close>

theorem reset_clears_witness:
  "status (app (run example_host success_session)) = Success \<and>
   reset (app (run example_host success_session)) =
     \<lparr>url = [], status = Idle, result = JNull, errorMsg = []\<rparr> \<and>
   status (app (run example_host stale_session)) = Error \<and>
   reset (app (run example_host stale_session)) =
     \<lparr>url = [], status = Idle, result = JNull, errorMsg = []\<rparr>"
proof -
  have a: "status (app (run example_host success_session)) = Success" by code_simp
  have b: "status (app (run example_host stale_session)) = Error" by code_simp
  from a b reset_clears [of "app (run example_host success_session)"]
    reset_clears [of "app (run example_host stale_session)"]
  show ?thesis by blast
qed

section \<open>Platform detection: substrings in any letter case\<close>

text \<open>
  Claim C10, as the code has it. Detection looks for the six signatures anywhere in the
  input, in any letter case, and asks for no URL: an input in which \<open>youtube.com\<close> or
  \<open>youtu.be\<close> occurs is YouTube; one in which \<open>instagram.com\<close> occurs is Instagram,
  \<open>tiktok.com\<close> TikTok, \<open>facebook.com\<close> or \<open>fb.watch\<close> Facebook, each provided that no
  signature of a platform earlier in the table occurs as well (then the earlier platform
  is returned).
\<close>

theorem detect_substring_any_case:
  "(contains_ci ''youtube.com'' u \<or> contains_ci ''youtu.be'' u \<longrightarrow>
      detectPlatform u = Some ''YouTube'' \<and> platform u = Some ''YouTube'') \<and>
   (contains_ci ''instagram.com'' u \<and>
    \<not> (contains_ci ''youtube.com'' u \<or> contains_ci ''youtu.be'' u) \<longrightarrow>
      detectPlatform u = Some ''Instagram'' \<and> platform u = Some ''Instagram'') \<and>
   (contains_ci ''tiktok.com'' u \<and>
    \<not> (contains_ci ''youtube.com'' u \<or> contains_ci ''youtu.be'' u) \<and>
    \<not> contains_ci ''instagram.com'' u \<longrightarrow>
      detectPlatform u = Some ''TikTok'' \<and> platform u = Some ''TikTok'') \<and>
   ((contains_ci ''facebook.com'' u \<or> contains_ci ''fb.watch'' u) \<and>
    \<not> (contains_ci ''youtube.com'' u \<or> contains_ci ''youtu.be'' u) \<and>
    \<not> contains_ci ''instagram.com'' u \<and> \<not> contains_ci ''tiktok.com'' u \<longrightarrow>
      detectPlatform u = Some ''Facebook'' \<and> platform u = Some ''Facebook'')"
proof -
  have ne: "contains_ci p u \<Longrightarrow> p \<noteq> [] \<Longrightarrow> platform u = detectPlatform u" for p
    using contains_ci_nonempty [of p u] by (simp add: platform_def)
  show ?thesis
    by (intro conjI impI; elim conjE disjE) (simp_all add: ne detectPlatform_cases)
qed

text \<open>The theorem at concrete inputs.\<close>

theorem detect_substring_any_case_witness:
  "contains_ci ''youtu.be'' ''watch YouTu.BE/abc'' \<and>
   URL_scheme example_host ''watch YouTu.BE/abc'' = None \<and>
   detectPlatform ''watch YouTu.BE/abc'' = Some ''YouTube'' \<and>
   contains_ci ''instagram.com'' ''INSTAGRAM.COM/p/1'' \<and>
   detectPlatform ''INSTAGRAM.COM/p/1'' = Some ''Instagram'' \<and>
   contains_ci ''tiktok.com'' ''my TikTok.com page'' \<and>
   detectPlatform ''my TikTok.com page'' = Some ''TikTok'' \<and>
   contains_ci ''fb.watch'' ''FB.watch/xyz'' \<and>
   detectPlatform ''FB.watch/xyz'' = Some ''Facebook''"
proof -
  have a: "contains_ci ''youtu.be'' ''watch YouTu.BE/abc''" by code_simp
  have b: "URL_scheme example_host ''watch YouTu.BE/abc'' = None" by code_simp
  have c: "contains_ci ''instagram.com'' ''INSTAGRAM.COM/p/1'' \<and>
      \<not> (contains_ci ''youtube.com'' ''INSTAGRAM.COM/p/1'' \<or>
         contains_ci ''youtu.be'' ''INSTAGRAM.COM/p/1'')"
    by code_simp
  have d: "contains_ci ''tiktok.com'' ''my TikTok.com page'' \<and>
      \<not> (contains_ci ''youtube.com'' ''my TikTok.com page'' \<or>
         contains_ci ''youtu.be'' ''my TikTok.com page'') \<and>
      \<not> contains_ci ''instagram.com'' ''my TikTok.com page''"
    by code_simp
  have e: "contains_ci ''fb.watch'' ''FB.watch/xyz'' \<and>
      \<not> (contains_ci ''youtube.com'' ''FB.watch/xyz'' \<or>
         contains_ci ''youtu.be'' ''FB.watch/xyz'') \<and>
      \<not> contains_ci ''instagram.com'' ''FB.watch/xyz'' \<and>
      \<not> contains_ci ''tiktok.com'' ''FB.watch/xyz''"
    by code_simp
  from a detect_substring_any_case [of "''watch YouTu.BE/abc''"]
  have a': "detectPlatform ''watch YouTu.BE/abc'' = Some ''YouTube''" by blast
  from c detect_substring_any_case [of "''INSTAGRAM.COM/p/1''"]
  have c': "detectPlatform ''INSTAGRAM.COM/p/1'' = Some ''Instagram''" by blast
  from d detect_substring_any_case [of "''my TikTok.com page''"]
  have d': "detectPlatform ''my TikTok.com page'' = Some ''TikTok''" by blast
  from e detect_substring_any_case [of "''FB.watch/xyz''"]
  have e': "detectPlatform ''FB.watch/xyz'' = Some ''Facebook''" by blast
  from a b c d e a' c' d' e' show ?thesis by (intro conjI) (elim conjE, assumption)+
qed

text \<open>
  An input that contains \<open>facebook.com\<close> and is classified as YouTube, because
  \<open>youtu.be\<close> occurs in it too and YouTube comes first in the table.
\<close>

theorem detect_substring_counterexample:
  "contains_ci ''facebook.com'' shared_link \<and> detectPlatform shared_link = Some ''YouTube''"
  by code_simp

end
